theory Spec2Isabelle
  imports Main "HOL-Library.Sublist"
begin

section \<open>Data model\<close>

text \<open>
  The store of \<^verbatim>\<open>app.py\<close> is an SQLite file with the two tables created by
  \<^verbatim>\<open>init_db\<close>. A table is the list of its rows in insertion order, a row is a record
  with one field per column (the column name prefixed by \<open>emp_\<close> or \<open>req_\<close>).

  A calendar date is its proleptic Gregorian ordinal (Python's \<^verbatim>\<open>date.toordinal()\<close>).
  The code stores a date as \<^verbatim>\<open>isoformat()\<close> text and reads it back with
  \<^verbatim>\<open>fromisoformat\<close>; the text is always \<^verbatim>\<open>YYYY-MM-DD\<close> with four year digits, so the
  text order SQLite compares by is the order of the ordinals, and
  \<^verbatim>\<open>(end - start).days\<close> is the difference of the ordinals.

  Integers are \<open>int\<close>: every integer the operations are called with is taken to fit the
  64-bit \<^verbatim>\<open>INTEGER\<close> of the store. Text is \<open>string\<close>.

  \<^verbatim>\<open>created_at\<close> is filled by the column default \<^verbatim>\<open>CURRENT_TIMESTAMP\<close>; the
  operations that insert a row take the store's clock reading as the argument \<open>now\<close>.
\<close>

type_synonym date = int

record employee =
  emp_id :: int
  emp_name :: string
  emp_email :: string
  emp_department :: string
  emp_joining_date :: date
  emp_leave_balance :: int
  emp_created_at :: string

record leave_request =
  req_id :: int
  req_employee_id :: int
  req_start_date :: date
  req_end_date :: date
  req_reason :: "string option"
  req_status :: string
  req_created_at :: string

text \<open>
  \<open>employees_seq\<close> and \<open>leave_requests_seq\<close> are the rows of \<^verbatim>\<open>sqlite_sequence\<close>
  that \<^verbatim>\<open>AUTOINCREMENT\<close> keeps: the largest id ever given out in each table.
\<close>

record db =
  employees :: "employee list"
  leave_requests :: "leave_request list"
  employees_seq :: int
  leave_requests_seq :: int

text \<open>
  The exceptions the operations raise. \<open>ValueError\<close> carries the message of the
  \<^verbatim>\<open>raise\<close>; \<open>IntegrityError\<close> is the store refusing a second row with the same
  email; \<open>TypeError\<close> is \<^verbatim>\<open>cur2.fetchone()[0]\<close> on a missing row.
\<close>

datatype error = ValueError string | IntegrityError | TypeError

text \<open>The store after \<^verbatim>\<open>init_db\<close> has run on a new file.\<close>

definition empty_db :: db where
  "empty_db = \<lparr>employees = [], leave_requests = [], employees_seq = 0, leave_requests_seq = 0\<rparr>"

text \<open>
  \<^verbatim>\<open>with closing(get_conn()) as conn, conn:\<close> runs its body on a connection and commits
  when the body returns, rolls back when it raises. A body is a function from the store
  to its outcome and the store as its own statements have left it.
\<close>

definition with_conn :: "(db \<Rightarrow> (error + 'a) \<times> db) \<Rightarrow> db \<Rightarrow> (error + 'a) \<times> db" where
  "with_conn body d =
     (case body d of
        (Inl e, _) \<Rightarrow> (Inl e, d)
      | (Inr v, d') \<Rightarrow> (Inr v, d'))"

text \<open>The id of a new row under \<^verbatim>\<open>AUTOINCREMENT\<close>: one more than the largest id so far.\<close>

definition next_id :: "int \<Rightarrow> int list \<Rightarrow> int" where
  "next_id seq ids = fold max ids seq + 1"

section \<open>Operations\<close>

definition days_inclusive :: "date \<Rightarrow> date \<Rightarrow> int" where
  "days_inclusive start end = (end - start) + 1"

text \<open>\<^verbatim>\<open>SELECT * FROM employees WHERE id = ?\<close> followed by \<^verbatim>\<open>fetchone()\<close>.\<close>

definition select_employee :: "db \<Rightarrow> int \<Rightarrow> employee option" where
  "select_employee conn emp_id' = find (\<lambda>e. emp_id e = emp_id') (employees conn)"

definition select_leave_request :: "db \<Rightarrow> int \<Rightarrow> leave_request option" where
  "select_leave_request conn leave_id = find (\<lambda>r. req_id r = leave_id) (leave_requests conn)"

definition get_employee :: "int \<Rightarrow> db \<Rightarrow> employee option" where
  "get_employee emp_id' d = select_employee d emp_id'"

definition add_employee_body ::
  "string \<Rightarrow> string \<Rightarrow> string \<Rightarrow> date \<Rightarrow> int \<Rightarrow> string \<Rightarrow> db \<Rightarrow> (error + unit) \<times> db" where
  "add_employee_body name email department joining_date leave_balance now conn =
     (if email \<in> set (map emp_email (employees conn)) then (Inl IntegrityError, conn)
      else
        let new_id = next_id (employees_seq conn) (map emp_id (employees conn)) in
        (Inr (),
         conn\<lparr>employees := employees conn @
                 [\<lparr>emp_id = new_id, emp_name = name, emp_email = email,
                   emp_department = department, emp_joining_date = joining_date,
                   emp_leave_balance = leave_balance, emp_created_at = now\<rparr>],
               employees_seq := new_id\<rparr>))"

definition add_employee ::
  "string \<Rightarrow> string \<Rightarrow> string \<Rightarrow> date \<Rightarrow> int \<Rightarrow> string \<Rightarrow> db \<Rightarrow> (error + unit) \<times> db" where
  "add_employee name email department joining_date leave_balance now =
     with_conn (add_employee_body name email department joining_date leave_balance now)"

definition has_overlap :: "db \<Rightarrow> int \<Rightarrow> date \<Rightarrow> date \<Rightarrow> bool" where
  "has_overlap conn employee_id start_date end_date =
     (filter (\<lambda>r. req_employee_id r = employee_id
                 \<and> (req_status r = ''PENDING'' \<or> req_status r = ''APPROVED'')
                 \<and> req_start_date r \<le> end_date
                 \<and> req_end_date r \<ge> start_date) (leave_requests conn) \<noteq> [])"

definition apply_leave_body ::
  "int \<Rightarrow> date \<Rightarrow> date \<Rightarrow> string option \<Rightarrow> string \<Rightarrow> db \<Rightarrow> (error + unit) \<times> db" where
  "apply_leave_body employee_id start_date end_date reason now conn =
     (case select_employee conn employee_id of
        None \<Rightarrow> (Inl (ValueError ''Employee not found''), conn)
      | Some emp \<Rightarrow>
          let joining_date = emp_joining_date emp;
              balance = emp_leave_balance emp
          in
          if end_date < start_date then
            (Inl (ValueError ''End date cannot be before start date''), conn)
          else if start_date < joining_date then
            (Inl (ValueError ''Cannot apply for leave before joining date''), conn)
          else if has_overlap conn employee_id start_date end_date then
            (Inl (ValueError ''Overlapping leave request exists (pending or approved)''), conn)
          else
            let req_days = days_inclusive start_date end_date in
            if req_days \<le> 0 then (Inl (ValueError ''Invalid duration''), conn)
            else if req_days > balance then
              (Inl (ValueError ''Insufficient leave balance''), conn)
            else
              let new_id = next_id (leave_requests_seq conn) (map req_id (leave_requests conn)) in
              (Inr (),
               conn\<lparr>leave_requests := leave_requests conn @
                       [\<lparr>req_id = new_id, req_employee_id = employee_id,
                         req_start_date = start_date, req_end_date = end_date,
                         req_reason = reason, req_status = ''PENDING'',
                         req_created_at = now\<rparr>],
                     leave_requests_seq := new_id\<rparr>))"

definition apply_leave ::
  "int \<Rightarrow> date \<Rightarrow> date \<Rightarrow> string option \<Rightarrow> string \<Rightarrow> db \<Rightarrow> (error + unit) \<times> db" where
  "apply_leave employee_id start_date end_date reason now =
     with_conn (apply_leave_body employee_id start_date end_date reason now)"

text \<open>
  \<^verbatim>\<open>UPDATE employees SET leave_balance = leave_balance - ? WHERE id = ?\<close> and
  \<^verbatim>\<open>UPDATE leave_requests SET status = ? WHERE id = ?\<close>.
\<close>

definition deduct_balance :: "int \<Rightarrow> int \<Rightarrow> db \<Rightarrow> db" where
  "deduct_balance needed employee_id conn =
     conn\<lparr>employees :=
       map (\<lambda>e. if emp_id e = employee_id
                then e\<lparr>emp_leave_balance := emp_leave_balance e - needed\<rparr> else e)
           (employees conn)\<rparr>"

definition set_status :: "string \<Rightarrow> int \<Rightarrow> db \<Rightarrow> db" where
  "set_status new_status leave_id conn =
     conn\<lparr>leave_requests :=
       map (\<lambda>r. if req_id r = leave_id then r\<lparr>req_status := new_status\<rparr> else r)
           (leave_requests conn)\<rparr>"

definition update_leave_status_body :: "int \<Rightarrow> string \<Rightarrow> db \<Rightarrow> (error + unit) \<times> db" where
  "update_leave_status_body leave_id new_status conn =
     (case select_leave_request conn leave_id of
        None \<Rightarrow> (Inl (ValueError ''Leave request not found''), conn)
      | Some row \<Rightarrow>
          let employee_id = req_employee_id row;
              start_date = req_start_date row;
              end_date = req_end_date row;
              curr_status = req_status row
          in
          if curr_status \<noteq> ''PENDING'' then
            (Inl (ValueError ''Only pending requests can be updated''), conn)
          else if new_status = ''APPROVED'' then
            (case select_employee conn employee_id of
               None \<Rightarrow> (Inl TypeError, conn)
             | Some emp \<Rightarrow>
                 let bal = emp_leave_balance emp;
                     needed = days_inclusive start_date end_date
                 in
                 if needed > bal then
                   (Inl (ValueError ''Insufficient balance at approval time''), conn)
                 else
                   (Inr (), set_status new_status leave_id (deduct_balance needed employee_id conn)))
          else (Inr (), set_status new_status leave_id conn))"

definition update_leave_status :: "int \<Rightarrow> string \<Rightarrow> db \<Rightarrow> (error + unit) \<times> db" where
  "update_leave_status leave_id new_status = with_conn (update_leave_status_body leave_id new_status)"

definition get_balance :: "int \<Rightarrow> db \<Rightarrow> error + int" where
  "get_balance emp_id' d =
     (case select_employee d emp_id' of
        None \<Rightarrow> Inl (ValueError ''Employee not found'')
      | Some row \<Rightarrow> Inr (emp_leave_balance row))"

section \<open>Query layer\<close>

text \<open>
  \<open>sql_lower\<close> is SQLite's \<^verbatim>\<open>LOWER\<close>, which folds the letters A to Z only;
  \<open>py_lower\<close> is \<^verbatim>\<open>str.lower()\<close>, which agrees with it on ASCII text (the text
  modelled here).
\<close>

definition lower_char :: "char \<Rightarrow> char" where
  "lower_char c =
     (let n = (of_char c :: nat) in if 65 \<le> n \<and> n \<le> 90 then char_of (n + 32) else c)"

definition sql_lower :: "string \<Rightarrow> string" where
  "sql_lower s = map lower_char s"

definition py_lower :: "string \<Rightarrow> string" where
  "py_lower s = map lower_char s"

text \<open>
  SQLite's \<^verbatim>\<open>text LIKE pattern\<close> with no \<^verbatim>\<open>ESCAPE\<close>: \<^verbatim>\<open>%\<close> matches any run of
  characters, \<^verbatim>\<open>_\<close> matches any one character, every other character matches itself
  up to the case of ASCII letters.
\<close>

fun like :: "string \<Rightarrow> string \<Rightarrow> bool" where
  "like [] s = (s = [])"
| "like (p # ps) s =
     (if p = CHR ''%'' then
        (like ps s \<or> (case s of [] \<Rightarrow> False | _ # s' \<Rightarrow> like (p # ps) s'))
      else
        (case s of
           [] \<Rightarrow> False
         | c # s' \<Rightarrow> (p = CHR ''_'' \<or> lower_char p = lower_char c) \<and> like ps s'))"

definition list_employees :: "string option \<Rightarrow> db \<Rightarrow> employee list" where
  "list_employees q d =
     (case q of
        None \<Rightarrow> sort_key (\<lambda>e. - emp_id e) (employees d)
      | Some q' \<Rightarrow>
          if q' \<noteq> [] then
            let pat = ''%'' @ py_lower q' @ ''%'' in
            sort_key (\<lambda>e. - emp_id e)
              (filter (\<lambda>e. like pat (sql_lower (emp_name e)) \<or> like pat (sql_lower (emp_email e)))
                 (employees d))
          else sort_key (\<lambda>e. - emp_id e) (employees d))"

text \<open>
  What the specification asks of \<open>listEmployees\<close>: an employee is listed when the
  filter is a substring of the name or of the email, letter case apart.
\<close>

definition contains_ci :: "string \<Rightarrow> string \<Rightarrow> bool" where
  "contains_ci q s = sublist (map lower_char q) (map lower_char s)"

definition listEmployees_spec :: "string option \<Rightarrow> db \<Rightarrow> employee list" where
  "listEmployees_spec q d =
     (case q of
        None \<Rightarrow> sort_key (\<lambda>e. - emp_id e) (employees d)
      | Some q' \<Rightarrow>
          sort_key (\<lambda>e. - emp_id e)
            (filter (\<lambda>e. contains_ci q' (emp_name e) \<or> contains_ci q' (emp_email e))
               (employees d)))"

section \<open>Runs of the core operations\<close>

datatype operation =
    AddEmployee string string string date int string
  | ApplyLeave int date date "string option" string
  | UpdateLeaveStatus int string

fun exec :: "operation \<Rightarrow> db \<Rightarrow> (error + unit) \<times> db" where
  "exec (AddEmployee name email department joining_date leave_balance now) d =
     add_employee name email department joining_date leave_balance now d"
| "exec (ApplyLeave employee_id start_date end_date reason now) d =
     apply_leave employee_id start_date end_date reason now d"
| "exec (UpdateLeaveStatus leave_id new_status) d =
     update_leave_status leave_id new_status d"

text \<open>The store after a sequence of calls, each committed or rolled back.\<close>

fun run :: "operation list \<Rightarrow> db \<Rightarrow> db" where
  "run [] d = d"
| "run (x # xs) d = run xs (snd (exec x d))"

section \<open>Invariants\<close>

definition balances_nonneg :: "db \<Rightarrow> bool" where
  "balances_nonneg d = list_all (\<lambda>e. 0 \<le> emp_leave_balance e) (employees d)"

definition active :: "leave_request \<Rightarrow> bool" where
  "active r = (req_status r = ''PENDING'' \<or> req_status r = ''APPROVED'')"

text \<open>Two requests of one employee, both pending or approved, whose inclusive ranges meet.\<close>

definition clash :: "leave_request \<Rightarrow> leave_request \<Rightarrow> bool" where
  "clash a b =
     (req_employee_id a = req_employee_id b \<and> active a \<and> active b
      \<and> req_start_date a \<le> req_end_date b \<and> req_end_date a \<ge> req_start_date b)"

text \<open>No two rows of the table clash (\<open>sorted_wrt\<close> ranges over the pairs of distinct rows).\<close>

definition non_overlapping :: "db \<Rightarrow> bool" where
  "non_overlapping d = sorted_wrt (\<lambda>a b. \<not> clash a b) (leave_requests d)"

text \<open>The initial balance of a registration is not negative (the form admits 0 to 365).\<close>

fun initial_balance_ok :: "operation \<Rightarrow> bool" where
  "initial_balance_ok (AddEmployee name email department joining_date leave_balance now) =
     (0 \<le> leave_balance)"
| "initial_balance_ok _ = True"

section \<open>The error kinds of the specification\<close>

datatype error_kind =
    NotFound | DuplicateEmail | InvalidRange | BeforeJoining | OverlappingRequest
  | InsufficientBalance | NotPending | Unnamed

definition kind_of :: "error \<Rightarrow> error_kind" where
  "kind_of e =
     (if e = ValueError ''Employee not found'' \<or> e = ValueError ''Leave request not found''
        then NotFound
      else if e = IntegrityError then DuplicateEmail
      else if e = ValueError ''End date cannot be before start date'' then InvalidRange
      else if e = ValueError ''Cannot apply for leave before joining date'' then BeforeJoining
      else if e = ValueError ''Overlapping leave request exists (pending or approved)''
        then OverlappingRequest
      else if e = ValueError ''Insufficient leave balance''
              \<or> e = ValueError ''Insufficient balance at approval time''
        then InsufficientBalance
      else if e = ValueError ''Only pending requests can be updated'' then NotPending
      else Unnamed)"

text \<open>The kind of the failure of a call, \<open>None\<close> when it returned.\<close>

definition failure_kind :: "(error + 'a) \<times> db \<Rightarrow> error_kind option" where
  "failure_kind r = (case fst r of Inl e \<Rightarrow> Some (kind_of e) | Inr _ \<Rightarrow> None)"

text \<open>
  \<open>submitLeaveRequest\<close> as section 4.1 of the specification words it: the five
  preconditions in their order, each with its error kind, then the insertion of one
  \<open>PENDING\<close> row.
\<close>

definition submitLeaveRequest ::
  "int \<Rightarrow> date \<Rightarrow> date \<Rightarrow> string option \<Rightarrow> string \<Rightarrow> db \<Rightarrow> (error_kind + unit) \<times> db" where
  "submitLeaveRequest employeeId startDate endDate reason now d =
     (case find (\<lambda>e. emp_id e = employeeId) (employees d) of
        None \<Rightarrow> (Inl NotFound, d)
      | Some employee \<Rightarrow>
          if \<not> endDate \<ge> startDate then (Inl InvalidRange, d)
          else if \<not> startDate \<ge> emp_joining_date employee then (Inl BeforeJoining, d)
          else if list_ex (\<lambda>existing. req_employee_id existing = employeeId
                              \<and> req_status existing \<in> {''PENDING'', ''APPROVED''}
                              \<and> req_start_date existing \<le> endDate
                              \<and> req_end_date existing \<ge> startDate) (leave_requests d)
            then (Inl OverlappingRequest, d)
          else if \<not> endDate - startDate + 1 \<le> emp_leave_balance employee
            then (Inl InsufficientBalance, d)
          else
            (Inr (),
             d\<lparr>leave_requests := leave_requests d @
                  [\<lparr>req_id = next_id (leave_requests_seq d) (map req_id (leave_requests d)),
                    req_employee_id = employeeId, req_start_date = startDate,
                    req_end_date = endDate, req_reason = reason, req_status = ''PENDING'',
                    req_created_at = now\<rparr>],
                leave_requests_seq :=
                  next_id (leave_requests_seq d) (map req_id (leave_requests d))\<rparr>))"

text \<open>The primary keys of the two tables: no two rows of a table share an id.\<close>

definition primary_keys :: "db \<Rightarrow> bool" where
  "primary_keys d =
     (distinct (map emp_id (employees d)) \<and> distinct (map req_id (leave_requests d)))"

section \<open>The scenario of the specification\<close>

text \<open>
  An employee who joined on 2024-01-01 (ordinal 738886) with balance 24, and her request
  for 2024-02-01 to 2024-02-05 (ordinals 738917 to 738921): pending, approved, rejected.
\<close>

definition jane :: employee where
  "jane = \<lparr>emp_id = 1, emp_name = ''Jane Doe'', emp_email = ''jane.doe@company.com'',
           emp_department = ''Engineering'', emp_joining_date = 738886,
           emp_leave_balance = 24, emp_created_at = ''2024-01-01 09:00:00''\<rparr>"

definition february :: leave_request where
  "february = \<lparr>req_id = 1, req_employee_id = 1, req_start_date = 738917,
               req_end_date = 738921, req_reason = None, req_status = ''PENDING'',
               req_created_at = ''2024-01-15 10:30:00''\<rparr>"

definition db_registered :: db where
  "db_registered =
     \<lparr>employees = [jane], leave_requests = [], employees_seq = 1, leave_requests_seq = 0\<rparr>"

definition db_pending :: db where
  "db_pending =
     \<lparr>employees = [jane], leave_requests = [february], employees_seq = 1,
      leave_requests_seq = 1\<rparr>"

definition db_approved :: db where
  "db_approved =
     \<lparr>employees = [jane\<lparr>emp_leave_balance := 19\<rparr>],
      leave_requests = [february\<lparr>req_status := ''APPROVED''\<rparr>], employees_seq = 1,
      leave_requests_seq = 1\<rparr>"

definition db_rejected :: db where
  "db_rejected =
     \<lparr>employees = [jane], leave_requests = [february\<lparr>req_status := ''REJECTED''\<rparr>],
      employees_seq = 1, leave_requests_seq = 1\<rparr>"

definition register_jane :: operation where
  "register_jane =
     AddEmployee ''Jane Doe'' ''jane.doe@company.com'' ''Engineering'' 738886 24
       ''2024-01-01 09:00:00''"

definition submit_february :: operation where
  "submit_february = ApplyLeave 1 738917 738921 None ''2024-01-15 10:30:00''"

section \<open>Transactions and lookups\<close>

lemma with_conn_Inl: "fst (body d) = Inl e \<Longrightarrow> with_conn body d = (Inl e, d)"
  by (cases "body d") (simp add: with_conn_def)

lemma with_conn_Inr: "fst (body d) = Inr v \<Longrightarrow> with_conn body d = body d"
  by (cases "body d") (simp add: with_conn_def)

lemma with_conn_failure: "fst (with_conn body d) = Inl e \<Longrightarrow> snd (with_conn body d) = d"
  by (cases "body d") (auto simp: with_conn_def split: sum.splits)

lemma find_map_update:
  "find (\<lambda>x. key x = k) (map (\<lambda>x. if key x = k' then upd x else x) xs) =
     (if k = k' then map_option upd (find (\<lambda>x. key x = k) xs) else find (\<lambda>x. key x = k) xs)"
  if "\<And>x. key (upd x) = key x"
  using that by (induction xs) auto

lemma select_leave_request_set_status:
  "select_leave_request (set_status s k' d) k =
     (if k = k' then map_option (\<lambda>r. r\<lparr>req_status := s\<rparr>) (select_leave_request d k)
      else select_leave_request d k)"
  unfolding select_leave_request_def set_status_def
  by (simp add: find_map_update)

lemma select_employee_set_status:
  "select_employee (set_status s k' d) k = select_employee d k"
  by (simp add: select_employee_def set_status_def)

lemma select_leave_request_deduct_balance:
  "select_leave_request (deduct_balance n e d) k = select_leave_request d k"
  by (simp add: select_leave_request_def deduct_balance_def)

lemma select_employee_deduct_balance:
  "select_employee (deduct_balance n k' d) k =
     (if k = k' then map_option (\<lambda>e. e\<lparr>emp_leave_balance := emp_leave_balance e - n\<rparr>) (select_employee d k)
      else select_employee d k)"
  unfolding select_employee_def deduct_balance_def
  by (simp add: find_map_update)

lemma body_not_pending:
  "select_leave_request d leave_id = Some row \<Longrightarrow> req_status row \<noteq> ''PENDING'' \<Longrightarrow>
   update_leave_status_body leave_id new_status d =
     (Inl (ValueError ''Only pending requests can be updated''), d)"
  by (simp add: update_leave_status_body_def)

lemma body_other_status:
  "select_leave_request d leave_id = Some row \<Longrightarrow> req_status row = ''PENDING'' \<Longrightarrow>
   new_status \<noteq> ''APPROVED'' \<Longrightarrow>
   update_leave_status_body leave_id new_status d = (Inr (), set_status new_status leave_id d)"
  by (simp add: update_leave_status_body_def)

lemma body_approved:
  "select_leave_request d leave_id = Some row \<Longrightarrow> req_status row = ''PENDING'' \<Longrightarrow>
   select_employee d (req_employee_id row) = Some emp \<Longrightarrow>
   days_inclusive (req_start_date row) (req_end_date row) \<le> emp_leave_balance emp \<Longrightarrow>
   update_leave_status_body leave_id ''APPROVED'' d =
     (Inr (), set_status ''APPROVED'' leave_id
        (deduct_balance (days_inclusive (req_start_date row) (req_end_date row)) (req_employee_id row) d))"
  by (simp add: update_leave_status_body_def Let_def)

lemma body_failure_unchanged:
  "fst (update_leave_status_body leave_id new_status d) = Inl e \<Longrightarrow>
   snd (update_leave_status_body leave_id new_status d) = d"
  by (auto simp: update_leave_status_body_def Let_def split: option.splits if_splits)

lemma other_status:
  assumes "select_leave_request d leave_id = Some row" and "req_status row = ''PENDING''"
    and "new_status \<noteq> ''APPROVED''"
  shows "update_leave_status leave_id new_status d = (Inr (), set_status new_status leave_id d)"
  unfolding update_leave_status_def
  by (simp add: with_conn_Inr [where v = "()"] body_other_status [OF assms])

text \<open>The stores of the scenario are reached from the empty one.\<close>

lemma run_registered: "run [register_jane] empty_db = db_registered"
  by code_simp

lemma run_pending: "run [register_jane, submit_february] empty_db = db_pending"
  by code_simp

lemma run_approved:
  "run [register_jane, submit_february, UpdateLeaveStatus 1 ''APPROVED''] empty_db = db_approved"
  by code_simp

lemma run_rejected:
  "run [register_jane, submit_february, UpdateLeaveStatus 1 ''REJECTED''] empty_db = db_rejected"
  by code_simp

lemma select_february_pending: "select_leave_request db_pending 1 = Some february"
  by (simp add: select_leave_request_def db_pending_def february_def)

lemma select_february_approved:
  "select_leave_request db_approved 1 = Some (february\<lparr>req_status := ''APPROVED''\<rparr>)"
  by (simp add: select_leave_request_def db_approved_def february_def)

lemma select_february_rejected:
  "select_leave_request db_rejected 1 = Some (february\<lparr>req_status := ''REJECTED''\<rparr>)"
  by (simp add: select_leave_request_def db_rejected_def february_def)

lemma select_jane_pending: "select_employee db_pending 1 = Some jane"
  by (simp add: select_employee_def db_pending_def jane_def)

lemma february_fields:
  "req_status february = ''PENDING''" "req_employee_id february = 1"
  "req_start_date february = 738917" "req_end_date february = 738921" "req_id february = 1"
  by (simp_all add: february_def)

lemma jane_fields: "emp_leave_balance jane = 24" "emp_id jane = 1" "emp_joining_date jane = 738886"
  by (simp_all add: jane_def)

section \<open>Deciding a request\<close>

text \<open>
  C6. Deciding an existing request whose status is not \<open>PENDING\<close> fails with
  "Only pending requests can be updated" (\<open>NotPending\<close>), whatever the new status, and
  the store is left as it was.
\<close>
theorem update_leave_status_not_pending:
  assumes "select_leave_request d leave_id = Some row" and "req_status row \<noteq> ''PENDING''"
  shows "update_leave_status leave_id new_status d =
           (Inl (ValueError ''Only pending requests can be updated''), d)
         \<and> failure_kind (update_leave_status leave_id new_status d) = Some NotPending"
proof -
  have "update_leave_status leave_id new_status d =
           (Inl (ValueError ''Only pending requests can be updated''), d)"
    unfolding update_leave_status_def
    by (rule with_conn_Inl) (simp add: body_not_pending [OF assms])
  then show ?thesis
    by (simp add: failure_kind_def kind_of_def)
qed

theorem update_leave_status_not_pending_witness:
  "select_leave_request db_approved 1 = Some (february\<lparr>req_status := ''APPROVED''\<rparr>)
   \<and> req_status (february\<lparr>req_status := ''APPROVED''\<rparr>) \<noteq> ''PENDING''
   \<and> update_leave_status 1 ''REJECTED'' db_approved =
       (Inl (ValueError ''Only pending requests can be updated''), db_approved)
   \<and> failure_kind (update_leave_status 1 ''REJECTED'' db_approved) = Some NotPending"
proof -
  have st: "req_status (february\<lparr>req_status := ''APPROVED''\<rparr>) \<noteq> ''PENDING''"
    by simp
  note t = update_leave_status_not_pending [OF select_february_approved st, of "''REJECTED''"]
  show ?thesis
    by (intro conjI select_february_approved st conjunct1 [OF t] conjunct2 [OF t])
qed

text \<open>
  C7. Rejecting a \<open>PENDING\<close> request returns, sets the status of that request to
  \<open>REJECTED\<close>, leaves the employees table (so every balance) as it was, and leaves every
  request with another id as it was.
\<close>
theorem reject_pending:
  assumes "select_leave_request d leave_id = Some row" and "req_status row = ''PENDING''"
  shows "fst (update_leave_status leave_id ''REJECTED'' d) = Inr ()
     \<and> employees (snd (update_leave_status leave_id ''REJECTED'' d)) = employees d
     \<and> select_leave_request (snd (update_leave_status leave_id ''REJECTED'' d)) leave_id
         = Some (row\<lparr>req_status := ''REJECTED''\<rparr>)
     \<and> leave_requests (snd (update_leave_status leave_id ''REJECTED'' d))
         = map (\<lambda>r. if req_id r = leave_id then r\<lparr>req_status := ''REJECTED''\<rparr> else r)
             (leave_requests d)
     \<and> (\<forall>emp_id'. get_balance emp_id' (snd (update_leave_status leave_id ''REJECTED'' d))
           = get_balance emp_id' d)"
proof -
  have neq: "''REJECTED'' \<noteq> ''APPROVED''" by simp
  have eq: "update_leave_status leave_id ''REJECTED'' d = (Inr (), set_status ''REJECTED'' leave_id d)"
    by (rule other_status [OF assms neq])
  show ?thesis
    unfolding eq
    by (simp add: select_leave_request_set_status assms(1) get_balance_def select_employee_set_status)
       (simp add: set_status_def)
qed

theorem reject_pending_witness:
  "select_leave_request db_pending 1 = Some february
   \<and> req_status february = ''PENDING''
   \<and> fst (update_leave_status 1 ''REJECTED'' db_pending) = Inr ()
   \<and> employees (snd (update_leave_status 1 ''REJECTED'' db_pending)) = [jane]
   \<and> select_leave_request (snd (update_leave_status 1 ''REJECTED'' db_pending)) 1
       = Some (february\<lparr>req_status := ''REJECTED''\<rparr>)
   \<and> get_balance 1 (snd (update_leave_status 1 ''REJECTED'' db_pending)) = Inr 24"
proof -
  note t = reject_pending [OF select_february_pending february_fields(1)]
  have bal: "get_balance 1 db_pending = Inr 24"
    by (simp add: get_balance_def select_jane_pending jane_fields)
  have emps: "employees db_pending = [jane]"
    by (simp add: db_pending_def)
  show ?thesis
    using t select_february_pending february_fields(1) bal emps by simp
qed

text \<open>
  C10. \<open>update_leave_status\<close> takes any status text: for a \<open>PENDING\<close> request and a
  new status other than \<open>APPROVED\<close> the call returns, writes that status on the request
  and leaves the employees table, so every balance, as it was.
\<close>
theorem update_leave_status_any_other_status:
  assumes "select_leave_request d leave_id = Some row" and "req_status row = ''PENDING''"
    and "new_status \<noteq> ''APPROVED''"
  shows "fst (update_leave_status leave_id new_status d) = Inr ()
     \<and> select_leave_request (snd (update_leave_status leave_id new_status d)) leave_id
         = Some (row\<lparr>req_status := new_status\<rparr>)
     \<and> leave_requests (snd (update_leave_status leave_id new_status d))
         = map (\<lambda>r. if req_id r = leave_id then r\<lparr>req_status := new_status\<rparr> else r)
             (leave_requests d)
     \<and> employees (snd (update_leave_status leave_id new_status d)) = employees d
     \<and> (\<forall>emp_id'. get_balance emp_id' (snd (update_leave_status leave_id new_status d))
           = get_balance emp_id' d)"
proof -
  have eq: "update_leave_status leave_id new_status d = (Inr (), set_status new_status leave_id d)"
    by (rule other_status [OF assms])
  show ?thesis
    unfolding eq
    by (simp add: select_leave_request_set_status assms(1) get_balance_def select_employee_set_status)
       (simp add: set_status_def)
qed

theorem update_leave_status_any_other_status_witness:
  "select_leave_request db_pending 1 = Some february
   \<and> req_status february = ''PENDING''
   \<and> ''ON HOLD'' \<noteq> ''APPROVED''
   \<and> fst (update_leave_status 1 ''ON HOLD'' db_pending) = Inr ()
   \<and> select_leave_request (snd (update_leave_status 1 ''ON HOLD'' db_pending)) 1
       = Some (february\<lparr>req_status := ''ON HOLD''\<rparr>)
   \<and> employees (snd (update_leave_status 1 ''ON HOLD'' db_pending)) = [jane]"
proof -
  have neq: "''ON HOLD'' \<noteq> ''APPROVED''" by simp
  from update_leave_status_any_other_status [OF select_february_pending february_fields(1) neq]
  show ?thesis
    using select_february_pending february_fields(1) by (simp add: db_pending_def)
qed

text \<open>
  C2. Approving a \<open>PENDING\<close> request whose inclusive span is at most the balance of its
  employee returns, takes exactly the span off that balance and sets the status to
  \<open>APPROVED\<close>; and an approval that fails leaves the store as it was, the working copy
  of the transaction included (no statement has written before a \<^verbatim>\<open>raise\<close>).
\<close>
theorem approve_pending:
  "(select_leave_request d leave_id = Some row \<and> req_status row = ''PENDING''
      \<and> select_employee d (req_employee_id row) = Some emp
      \<and> days_inclusive (req_start_date row) (req_end_date row) \<le> emp_leave_balance emp
    \<longrightarrow> fst (update_leave_status leave_id ''APPROVED'' d) = Inr ()
      \<and> get_balance (req_employee_id row) (snd (update_leave_status leave_id ''APPROVED'' d))
          = Inr (emp_leave_balance emp - days_inclusive (req_start_date row) (req_end_date row))
      \<and> select_leave_request (snd (update_leave_status leave_id ''APPROVED'' d)) leave_id
          = Some (row\<lparr>req_status := ''APPROVED''\<rparr>))
   \<and> (\<forall>d' leave_id' e.
        fst (update_leave_status leave_id' ''APPROVED'' d') = Inl e
        \<longrightarrow> snd (update_leave_status leave_id' ''APPROVED'' d') = d'
          \<and> snd (update_leave_status_body leave_id' ''APPROVED'' d') = d')"
proof (intro conjI impI allI)
  assume h: "select_leave_request d leave_id = Some row \<and> req_status row = ''PENDING''
      \<and> select_employee d (req_employee_id row) = Some emp
      \<and> days_inclusive (req_start_date row) (req_end_date row) \<le> emp_leave_balance emp"
  let ?needed = "days_inclusive (req_start_date row) (req_end_date row)"
  have body: "update_leave_status_body leave_id ''APPROVED'' d =
     (Inr (), set_status ''APPROVED'' leave_id (deduct_balance ?needed (req_employee_id row) d))"
    using h by (intro body_approved) blast+
  have eq: "update_leave_status leave_id ''APPROVED'' d =
     (Inr (), set_status ''APPROVED'' leave_id (deduct_balance ?needed (req_employee_id row) d))"
    unfolding update_leave_status_def by (simp add: with_conn_Inr [where v = "()"] body)
  show "fst (update_leave_status leave_id ''APPROVED'' d) = Inr ()"
    by (simp add: eq)
  show "get_balance (req_employee_id row) (snd (update_leave_status leave_id ''APPROVED'' d))
          = Inr (emp_leave_balance emp - ?needed)"
    using h by (simp add: eq get_balance_def select_employee_set_status select_employee_deduct_balance)
  show "select_leave_request (snd (update_leave_status leave_id ''APPROVED'' d)) leave_id
          = Some (row\<lparr>req_status := ''APPROVED''\<rparr>)"
    using h by (simp add: eq select_leave_request_set_status select_leave_request_deduct_balance)
next
  fix d' leave_id' e
  assume f: "fst (update_leave_status leave_id' ''APPROVED'' d') = Inl e"
  then show "snd (update_leave_status leave_id' ''APPROVED'' d') = d'"
    unfolding update_leave_status_def by (rule with_conn_failure)
  from f have "fst (update_leave_status_body leave_id' ''APPROVED'' d') = Inl e"
    unfolding update_leave_status_def with_conn_def
    by (auto split: prod.splits sum.splits)
  then show "snd (update_leave_status_body leave_id' ''APPROVED'' d') = d'"
    by (rule body_failure_unchanged)
qed

theorem approve_pending_witness:
  "select_leave_request db_pending 1 = Some february
   \<and> req_status february = ''PENDING''
   \<and> select_employee db_pending (req_employee_id february) = Some jane
   \<and> days_inclusive (req_start_date february) (req_end_date february) \<le> emp_leave_balance jane
   \<and> fst (update_leave_status 1 ''APPROVED'' db_pending) = Inr ()
   \<and> get_balance 1 (snd (update_leave_status 1 ''APPROVED'' db_pending)) = Inr 19
   \<and> select_leave_request (snd (update_leave_status 1 ''APPROVED'' db_pending)) 1
       = Some (february\<lparr>req_status := ''APPROVED''\<rparr>)
   \<and> fst (update_leave_status 1 ''APPROVED'' db_approved)
       = Inl (ValueError ''Only pending requests can be updated'')
   \<and> snd (update_leave_status 1 ''APPROVED'' db_approved) = db_approved
   \<and> snd (update_leave_status_body 1 ''APPROVED'' db_approved) = db_approved"
proof -
  note t = approve_pending [of db_pending 1 february jane]
  have emp: "select_employee db_pending (req_employee_id february) = Some jane"
    by (simp add: february_fields select_jane_pending)
  have days: "days_inclusive (req_start_date february) (req_end_date february) \<le> emp_leave_balance jane"
    by (simp add: days_inclusive_def february_fields jane_fields)
  have ok: "fst (update_leave_status 1 ''APPROVED'' db_pending) = Inr ()
      \<and> get_balance (req_employee_id february) (snd (update_leave_status 1 ''APPROVED'' db_pending))
          = Inr (emp_leave_balance jane - days_inclusive (req_start_date february) (req_end_date february))
      \<and> select_leave_request (snd (update_leave_status 1 ''APPROVED'' db_pending)) 1
          = Some (february\<lparr>req_status := ''APPROVED''\<rparr>)"
    using t select_february_pending february_fields(1) emp days by blast
  have st: "req_status (february\<lparr>req_status := ''APPROVED''\<rparr>) \<noteq> ''PENDING''"
    by simp
  have failed: "fst (update_leave_status 1 ''APPROVED'' db_approved)
       = Inl (ValueError ''Only pending requests can be updated'')"
    unfolding update_leave_status_def
    by (simp add: with_conn_Inl body_not_pending [OF select_february_approved st])
  have unchanged: "snd (update_leave_status 1 ''APPROVED'' db_approved) = db_approved
     \<and> snd (update_leave_status_body 1 ''APPROVED'' db_approved) = db_approved"
    using t failed by blast
  show ?thesis
    using select_february_pending february_fields(1) emp days ok failed unchanged
    by (simp add: days_inclusive_def february_fields jane_fields)
qed

section \<open>Submitting a request\<close>

lemma has_overlap_list_ex:
  "has_overlap d employee_id start_date end_date =
     list_ex (\<lambda>existing. req_employee_id existing = employee_id
                \<and> req_status existing \<in> {''PENDING'', ''APPROVED''}
                \<and> req_start_date existing \<le> end_date
                \<and> req_end_date existing \<ge> start_date) (leave_requests d)"
  unfolding has_overlap_def list_ex_iff filter_empty_conv by auto

lemma kind_of_simps:
  "kind_of (ValueError ''Employee not found'') = NotFound"
  "kind_of (ValueError ''Leave request not found'') = NotFound"
  "kind_of IntegrityError = DuplicateEmail"
  "kind_of (ValueError ''End date cannot be before start date'') = InvalidRange"
  "kind_of (ValueError ''Cannot apply for leave before joining date'') = BeforeJoining"
  "kind_of (ValueError ''Overlapping leave request exists (pending or approved)'') = OverlappingRequest"
  "kind_of (ValueError ''Insufficient leave balance'') = InsufficientBalance"
  "kind_of (ValueError ''Insufficient balance at approval time'') = InsufficientBalance"
  "kind_of (ValueError ''Only pending requests can be updated'') = NotPending"
  by (simp_all add: kind_of_def)

lemma apply_leave_body_cases:
  "apply_leave_body employee_id start_date end_date reason now d =
     (case select_employee d employee_id of
        None \<Rightarrow> (Inl (ValueError ''Employee not found''), d)
      | Some emp \<Rightarrow>
          if end_date < start_date then
            (Inl (ValueError ''End date cannot be before start date''), d)
          else if start_date < emp_joining_date emp then
            (Inl (ValueError ''Cannot apply for leave before joining date''), d)
          else if has_overlap d employee_id start_date end_date then
            (Inl (ValueError ''Overlapping leave request exists (pending or approved)''), d)
          else if days_inclusive start_date end_date > emp_leave_balance emp then
            (Inl (ValueError ''Insufficient leave balance''), d)
          else
            (Inr (),
             d\<lparr>leave_requests := leave_requests d @
                  [\<lparr>req_id = next_id (leave_requests_seq d) (map req_id (leave_requests d)),
                    req_employee_id = employee_id, req_start_date = start_date,
                    req_end_date = end_date, req_reason = reason, req_status = ''PENDING'',
                    req_created_at = now\<rparr>],
                leave_requests_seq :=
                  next_id (leave_requests_seq d) (map req_id (leave_requests d))\<rparr>))"
  unfolding apply_leave_body_def Let_def days_inclusive_def
  by (simp split: option.split)

lemma apply_leave_body_failure_unchanged:
  "fst (apply_leave_body employee_id start_date end_date reason now d) = Inl e \<Longrightarrow>
   snd (apply_leave_body employee_id start_date end_date reason now d) = d"
  unfolding apply_leave_body_cases by (simp split: option.splits if_splits)

lemma apply_leave_eq_body:
  "apply_leave employee_id start_date end_date reason now d =
   apply_leave_body employee_id start_date end_date reason now d"
proof (cases "fst (apply_leave_body employee_id start_date end_date reason now d)")
  case (Inl e)
  then have "apply_leave employee_id start_date end_date reason now d = (Inl e, d)"
    unfolding apply_leave_def by (rule with_conn_Inl)
  moreover have "apply_leave_body employee_id start_date end_date reason now d = (Inl e, d)"
    using Inl apply_leave_body_failure_unchanged [OF Inl] by (simp add: prod_eq_iff)
  ultimately show ?thesis by simp
next
  case (Inr v)
  then show ?thesis
    unfolding apply_leave_def by (rule with_conn_Inr)
qed

text \<open>
  C9. \<open>apply_leave\<close> never raises "Invalid duration": the day count is computed only
  after the test that the end date is not before the start date, and then it is at
  least 1.
\<close>
theorem invalid_duration_unreachable:
  "fst (apply_leave employee_id start_date end_date reason now d)
     \<noteq> Inl (ValueError ''Invalid duration'')
   \<and> fst (apply_leave_body employee_id start_date end_date reason now d)
     \<noteq> Inl (ValueError ''Invalid duration'')
   \<and> (\<not> end_date < start_date \<longrightarrow> 1 \<le> days_inclusive start_date end_date)"
proof -
  have "fst (apply_leave_body employee_id start_date end_date reason now d)
     \<noteq> Inl (ValueError ''Invalid duration'')"
    unfolding apply_leave_body_cases by (simp split: option.split)
  moreover have "\<not> end_date < start_date \<longrightarrow> 1 \<le> days_inclusive start_date end_date"
    by (simp add: days_inclusive_def)
  ultimately show ?thesis
    by (simp add: apply_leave_eq_body)
qed

theorem invalid_duration_unreachable_witness:
  "\<not> (738917 :: date) < 738917
   \<and> days_inclusive 738917 738917 = 1
   \<and> fst (apply_leave 1 738917 738917 None [] db_registered) = Inr ()
   \<and> fst (apply_leave 1 738917 738917 None [] db_registered) \<noteq> Inl (ValueError ''Invalid duration'')"
proof -
  note t = invalid_duration_unreachable [of 1 738917 738917 None "[]" db_registered]
  have "fst (apply_leave 1 738917 738917 None [] db_registered) = Inr ()"
    unfolding apply_leave_eq_body apply_leave_body_cases
    by (simp add: select_employee_def db_registered_def jane_def has_overlap_def days_inclusive_def)
  then show ?thesis
    using t by (simp add: days_inclusive_def)
qed

text \<open>
  C5, as stated: an end date before the start date makes \<open>apply_leave\<close> fail with
  \<open>InvalidRange\<close> whether or not the employee exists. On the empty store the call fails
  with "Employee not found" instead: the employee is looked up first.
\<close>
theorem invalid_range_counterexample:
  "(5 :: date) < 10
   \<and> fst (apply_leave 1 10 5 None [] empty_db) = Inl (ValueError ''Employee not found'')
   \<and> failure_kind (apply_leave 1 10 5 None [] empty_db) = Some NotFound
   \<and> failure_kind (apply_leave 1 10 5 None [] empty_db) \<noteq> Some InvalidRange"
proof -
  have "apply_leave 1 10 5 None [] empty_db = (Inl (ValueError ''Employee not found''), empty_db)"
    unfolding apply_leave_eq_body apply_leave_body_cases
    by (simp add: select_employee_def empty_db_def)
  then show ?thesis
    by (simp add: failure_kind_def kind_of_simps)
qed

text \<open>
  C5, amended: for an employee that exists, an end date before the start date makes
  \<open>apply_leave\<close> fail with "End date cannot be before start date" (\<open>InvalidRange\<close>),
  whatever the rest of the store, which is left as it was.
\<close>

theorem invalid_range_existing_employee:
  assumes "select_employee d employee_id = Some emp" and "end_date < start_date"
  shows "apply_leave employee_id start_date end_date reason now d
           = (Inl (ValueError ''End date cannot be before start date''), d)
         \<and> failure_kind (apply_leave employee_id start_date end_date reason now d)
           = Some InvalidRange"
  unfolding apply_leave_eq_body apply_leave_body_cases
  using assms by (simp add: failure_kind_def kind_of_simps)

theorem invalid_range_existing_employee_witness:
  "select_employee db_pending 1 = Some jane
   \<and> (738916 :: date) < 738917
   \<and> apply_leave 1 738917 738916 None [] db_pending
       = (Inl (ValueError ''End date cannot be before start date''), db_pending)
   \<and> failure_kind (apply_leave 1 738917 738916 None [] db_pending) = Some InvalidRange"
proof -
  have lt: "(738916 :: date) < 738917" by simp
  note t = invalid_range_existing_employee [OF select_jane_pending lt, of None "[]"]
  show ?thesis
    by (intro conjI select_jane_pending lt conjunct1 [OF t] conjunct2 [OF t])
qed

text \<open>
  C4. \<open>apply_leave\<close> is \<open>submitLeaveRequest\<close> of the specification: the five
  preconditions are tested in the order employee exists, end not before start, start
  not before joining, no overlapping pending or approved request, span within balance,
  and the first that fails gives the error; a call that returns has appended one
  \<open>PENDING\<close> row and left the employees table as it was; a call that fails leaves the
  store as it was.
\<close>
theorem apply_leave_checks_in_order:
  "map_prod (map_sum kind_of id) id (apply_leave employee_id start_date end_date reason now d)
     = submitLeaveRequest employee_id start_date end_date reason now d
   \<and> (fst (apply_leave employee_id start_date end_date reason now d) = Inr ()
      \<longrightarrow> employees (snd (apply_leave employee_id start_date end_date reason now d)) = employees d
        \<and> leave_requests (snd (apply_leave employee_id start_date end_date reason now d))
            = leave_requests d @
                [\<lparr>req_id = next_id (leave_requests_seq d) (map req_id (leave_requests d)),
                  req_employee_id = employee_id, req_start_date = start_date,
                  req_end_date = end_date, req_reason = reason, req_status = ''PENDING'',
                  req_created_at = now\<rparr>])
   \<and> (\<forall>e. fst (apply_leave employee_id start_date end_date reason now d) = Inl e
      \<longrightarrow> snd (apply_leave employee_id start_date end_date reason now d) = d)"
proof (intro conjI impI allI)
  show "map_prod (map_sum kind_of id) id (apply_leave employee_id start_date end_date reason now d)
     = submitLeaveRequest employee_id start_date end_date reason now d"
    unfolding apply_leave_eq_body apply_leave_body_cases submitLeaveRequest_def
      has_overlap_list_ex select_employee_def days_inclusive_def
    by (simp add: kind_of_simps not_le not_less split: option.split)
next
  assume "fst (apply_leave employee_id start_date end_date reason now d) = Inr ()"
  then show "employees (snd (apply_leave employee_id start_date end_date reason now d)) = employees d"
    and "leave_requests (snd (apply_leave employee_id start_date end_date reason now d))
            = leave_requests d @
                [\<lparr>req_id = next_id (leave_requests_seq d) (map req_id (leave_requests d)),
                  req_employee_id = employee_id, req_start_date = start_date,
                  req_end_date = end_date, req_reason = reason, req_status = ''PENDING'',
                  req_created_at = now\<rparr>]"
    unfolding apply_leave_eq_body apply_leave_body_cases
    by (auto split: option.splits if_splits)
next
  fix e
  assume "fst (apply_leave employee_id start_date end_date reason now d) = Inl e"
  then show "snd (apply_leave employee_id start_date end_date reason now d) = d"
    unfolding apply_leave_def by (rule with_conn_failure)
qed

theorem apply_leave_checks_in_order_witness:
  "fst (apply_leave 1 738917 738921 None ''2024-01-15 10:30:00'' db_registered) = Inr ()
   \<and> submitLeaveRequest 1 738917 738921 None ''2024-01-15 10:30:00'' db_registered
       = (Inr (), db_pending)
   \<and> employees (snd (apply_leave 1 738917 738921 None ''2024-01-15 10:30:00'' db_registered))
       = [jane]
   \<and> leave_requests (snd (apply_leave 1 738917 738921 None ''2024-01-15 10:30:00'' db_registered))
       = [february]
   \<and> fst (apply_leave 1 738919 738920 None [] db_pending)
       = Inl (ValueError ''Overlapping leave request exists (pending or approved)'')
   \<and> submitLeaveRequest 1 738919 738920 None [] db_pending = (Inl OverlappingRequest, db_pending)
   \<and> snd (apply_leave 1 738919 738920 None [] db_pending) = db_pending"
proof -
  note t1 = apply_leave_checks_in_order
    [of 1 738917 738921 None "''2024-01-15 10:30:00''" db_registered]
  note t2 = apply_leave_checks_in_order [of 1 738919 738920 None "[]" db_pending]
  have ok: "apply_leave 1 738917 738921 None ''2024-01-15 10:30:00'' db_registered
      = (Inr (), db_pending)"
    unfolding apply_leave_eq_body apply_leave_body_cases
    by (simp add: select_employee_def db_registered_def db_pending_def jane_def february_def
        has_overlap_def days_inclusive_def next_id_def)
  have failed: "fst (apply_leave 1 738919 738920 None [] db_pending)
      = Inl (ValueError ''Overlapping leave request exists (pending or approved)'')"
    unfolding apply_leave_eq_body apply_leave_body_cases
    by (simp add: select_employee_def db_pending_def jane_def february_def has_overlap_def)
  have s1: "submitLeaveRequest 1 738917 738921 None ''2024-01-15 10:30:00'' db_registered
      = (Inr (), db_pending)"
    using t1 ok by simp
  have s2: "snd (apply_leave 1 738919 738920 None [] db_pending) = db_pending"
    using t2 failed by blast
  have s3: "submitLeaveRequest 1 738919 738920 None [] db_pending
      = (Inl OverlappingRequest, db_pending)"
    using t2 failed s2 by (simp add: prod_eq_iff map_prod_def kind_of_simps split_beta)
  show ?thesis
    using ok failed s1 s2 s3 by (simp add: db_pending_def)
qed

section \<open>Invariants of the reachable stores\<close>

lemma fold_max_ge_init: "(a::int) \<le> fold max xs a"
proof (induction xs arbitrary: a)
  case Nil
  show ?case by simp
next
  case (Cons x xs)
  have "a \<le> max x a" by simp
  also have "max x a \<le> fold max xs (max x a)" by (rule Cons.IH)
  finally show ?case by simp
qed

lemma fold_max_ge_elem: "x \<in> set xs \<Longrightarrow> (x::int) \<le> fold max xs a"
proof (induction xs arbitrary: a)
  case Nil
  then show ?case by simp
next
  case (Cons y ys)
  show ?case
  proof (cases "x = y")
    case True
    have "x \<le> max y a" using True by simp
    also have "max y a \<le> fold max ys (max y a)" by (rule fold_max_ge_init)
    finally show ?thesis by simp
  next
    case False
    with Cons.prems have "x \<in> set ys" by simp
    then show ?thesis using Cons.IH by simp
  qed
qed

lemma next_id_fresh: "next_id seq ids \<notin> set ids"
proof
  assume "next_id seq ids \<in> set ids"
  then have "next_id seq ids \<le> fold max ids seq" by (rule fold_max_ge_elem)
  then show False by (simp add: next_id_def)
qed

lemma add_employee_eq_body:
  "add_employee name email department joining_date leave_balance now d =
   add_employee_body name email department joining_date leave_balance now d"
  unfolding add_employee_def with_conn_def add_employee_body_def
  by (simp add: Let_def)

lemma update_leave_status_eq_body:
  "update_leave_status leave_id new_status d = update_leave_status_body leave_id new_status d"
proof (cases "fst (update_leave_status_body leave_id new_status d)")
  case (Inl e)
  then have "update_leave_status leave_id new_status d = (Inl e, d)"
    unfolding update_leave_status_def by (rule with_conn_Inl)
  moreover have "update_leave_status_body leave_id new_status d = (Inl e, d)"
    using Inl body_failure_unchanged [OF Inl] by (simp add: prod_eq_iff)
  ultimately show ?thesis by simp
next
  case (Inr v)
  then show ?thesis
    unfolding update_leave_status_def by (rule with_conn_Inr)
qed

text \<open>The store after each operation, by cases.\<close>

lemma snd_add_employee:
  "snd (add_employee name email department joining_date leave_balance now d) = d
   \<or> snd (add_employee name email department joining_date leave_balance now d) =
       d\<lparr>employees := employees d @
            [\<lparr>emp_id = next_id (employees_seq d) (map emp_id (employees d)), emp_name = name,
              emp_email = email, emp_department = department, emp_joining_date = joining_date,
              emp_leave_balance = leave_balance, emp_created_at = now\<rparr>],
          employees_seq := next_id (employees_seq d) (map emp_id (employees d))\<rparr>"
  unfolding add_employee_eq_body add_employee_body_def by (simp add: Let_def)

lemma snd_apply_leave:
  "snd (apply_leave employee_id start_date end_date reason now d) = d
   \<or> (\<not> has_overlap d employee_id start_date end_date
      \<and> snd (apply_leave employee_id start_date end_date reason now d) =
         d\<lparr>leave_requests := leave_requests d @
              [\<lparr>req_id = next_id (leave_requests_seq d) (map req_id (leave_requests d)),
                req_employee_id = employee_id, req_start_date = start_date,
                req_end_date = end_date, req_reason = reason, req_status = ''PENDING'',
                req_created_at = now\<rparr>],
            leave_requests_seq := next_id (leave_requests_seq d) (map req_id (leave_requests d))\<rparr>)"
  unfolding apply_leave_eq_body apply_leave_body_cases by (simp split: option.split)

lemma snd_update_leave_status:
  "snd (update_leave_status leave_id new_status d) = d
   \<or> (\<exists>row. select_leave_request d leave_id = Some row \<and> req_status row = ''PENDING''
        \<and> (snd (update_leave_status leave_id new_status d) = set_status new_status leave_id d
           \<or> (\<exists>emp. select_employee d (req_employee_id row) = Some emp
                \<and> days_inclusive (req_start_date row) (req_end_date row) \<le> emp_leave_balance emp
                \<and> snd (update_leave_status leave_id new_status d) =
                    set_status new_status leave_id
                      (deduct_balance (days_inclusive (req_start_date row) (req_end_date row))
                         (req_employee_id row) d))))"
  unfolding update_leave_status_eq_body update_leave_status_body_def
  by (simp add: Let_def not_less split: option.split)

lemma find_unique:
  assumes "distinct (map key xs)" and "find (\<lambda>x. key x = k) xs = Some y"
    and "x \<in> set xs" and "key x = k"
  shows "x = y"
proof -
  from assms(2) have "y \<in> set xs" and "key y = k"
    by (auto simp: find_Some_iff)
  moreover from assms(1) have "inj_on key (set xs)"
    by (simp add: distinct_map)
  ultimately show ?thesis
    using assms(3,4) by (auto dest: inj_onD)
qed

text \<open>Primary keys.\<close>

lemma primary_keys_set_status: "primary_keys (set_status s k d) = primary_keys d"
  by (simp add: primary_keys_def set_status_def comp_def if_distrib [of req_id] cong: if_cong)

lemma primary_keys_deduct_balance: "primary_keys (deduct_balance n k d) = primary_keys d"
  by (simp add: primary_keys_def deduct_balance_def comp_def if_distrib [of emp_id] cong: if_cong)

lemma primary_keys_exec: "primary_keys d \<Longrightarrow> primary_keys (snd (exec x d))"
proof (cases x)
  case (AddEmployee name email department joining_date leave_balance now)
  assume "primary_keys d"
  then show ?thesis
    using snd_add_employee [of name email department joining_date leave_balance now d]
      next_id_fresh [of "employees_seq d" "map emp_id (employees d)"]
    unfolding AddEmployee by (auto simp: primary_keys_def)
next
  case (ApplyLeave employee_id start_date end_date reason now)
  assume "primary_keys d"
  then show ?thesis
    using snd_apply_leave [of employee_id start_date end_date reason now d]
      next_id_fresh [of "leave_requests_seq d" "map req_id (leave_requests d)"]
    unfolding ApplyLeave by (auto simp: primary_keys_def)
next
  case (UpdateLeaveStatus leave_id new_status)
  assume "primary_keys d"
  then show ?thesis
    using snd_update_leave_status [of leave_id new_status d]
    unfolding UpdateLeaveStatus
    by (auto simp: primary_keys_set_status primary_keys_deduct_balance)
qed

lemma primary_keys_empty: "primary_keys empty_db"
  by (simp add: primary_keys_def empty_db_def)

lemma primary_keys_run: "primary_keys d \<Longrightarrow> primary_keys (run ops d)"
  by (induction ops arbitrary: d) (simp_all add: primary_keys_exec)

text \<open>Balances.\<close>

lemma balances_nonneg_set_status: "balances_nonneg (set_status s k d) = balances_nonneg d"
  by (simp add: balances_nonneg_def set_status_def)

lemma balances_nonneg_deduct_balance:
  assumes "primary_keys d" and "balances_nonneg d"
    and "select_employee d k = Some emp" and "n \<le> emp_leave_balance emp"
  shows "balances_nonneg (deduct_balance n k d)"
proof -
  have "0 \<le> emp_leave_balance e - n" if "e \<in> set (employees d)" and "emp_id e = k" for e
  proof -
    from assms(1) have "distinct (map emp_id (employees d))"
      by (simp add: primary_keys_def)
    then have "e = emp"
      using assms(3) that unfolding select_employee_def by (rule find_unique)
    then show ?thesis using assms(4) by simp
  qed
  then show ?thesis
    using assms(2) by (auto simp: balances_nonneg_def deduct_balance_def list_all_iff)
qed

lemma balances_nonneg_exec:
  assumes "primary_keys d" and "balances_nonneg d" and "initial_balance_ok x"
  shows "balances_nonneg (snd (exec x d))"
proof (cases x)
  case (AddEmployee name email department joining_date leave_balance now)
  with assms(3) have "0 \<le> leave_balance" by simp
  then show ?thesis
    using assms(2) snd_add_employee [of name email department joining_date leave_balance now d]
    unfolding AddEmployee by (auto simp: balances_nonneg_def)
next
  case (ApplyLeave employee_id start_date end_date reason now)
  show ?thesis
    using assms(2) snd_apply_leave [of employee_id start_date end_date reason now d]
    unfolding ApplyLeave by (auto simp: balances_nonneg_def)
next
  case (UpdateLeaveStatus leave_id new_status)
  show ?thesis
    using assms(1,2) snd_update_leave_status [of leave_id new_status d]
    unfolding UpdateLeaveStatus
    by (auto simp: balances_nonneg_set_status intro: balances_nonneg_deduct_balance)
qed

lemma balances_nonneg_run:
  "primary_keys d \<Longrightarrow> balances_nonneg d \<Longrightarrow> list_all initial_balance_ok ops \<Longrightarrow>
   balances_nonneg (run ops d)"
proof (induction ops arbitrary: d)
  case Nil
  then show ?case by simp
next
  case (Cons x xs)
  from Cons.prems have "primary_keys (snd (exec x d))" and "balances_nonneg (snd (exec x d))"
    by (simp_all add: primary_keys_exec balances_nonneg_exec)
  with Cons.prems Cons.IH show ?case by simp
qed

text \<open>Overlaps.\<close>

lemma non_overlapping_deduct_balance:
  "non_overlapping (deduct_balance n k d) = non_overlapping d"
  by (simp add: non_overlapping_def deduct_balance_def)

lemma clash_cong:
  assumes "clash a' b'"
    and "req_employee_id a' = req_employee_id a" and "req_employee_id b' = req_employee_id b"
    and "req_start_date a' = req_start_date a" and "req_start_date b' = req_start_date b"
    and "req_end_date a' = req_end_date a" and "req_end_date b' = req_end_date b"
    and "active a' \<Longrightarrow> active a" and "active b' \<Longrightarrow> active b"
  shows "clash a b"
  using assms unfolding clash_def by simp

lemma non_overlapping_set_status:
  assumes "primary_keys d" and "non_overlapping d"
    and "select_leave_request d k = Some row" and "req_status row = ''PENDING''"
  shows "non_overlapping (set_status s k d)"
proof -
  define f :: "leave_request \<Rightarrow> leave_request"
    where "f = (\<lambda>r. if req_id r = k then r\<lparr>req_status := s\<rparr> else r)"
  have emp: "req_employee_id (f r) = req_employee_id r" for r by (simp add: f_def)
  have sd: "req_start_date (f r) = req_start_date r" for r by (simp add: f_def)
  have ed: "req_end_date (f r) = req_end_date r" for r by (simp add: f_def)
  have act: "active r" if "r \<in> set (leave_requests d)" and "active (f r)" for r
  proof (cases "req_id r = k")
    case True
    from assms(1) have "distinct (map req_id (leave_requests d))"
      by (simp add: primary_keys_def)
    then have "r = row"
      using assms(3) that(1) True unfolding select_leave_request_def by (rule find_unique)
    then show ?thesis using assms(4) by (simp add: active_def)
  next
    case False
    with that(2) show ?thesis by (simp add: f_def)
  qed
  have keep: "\<not> clash (f a) (f b)"
    if "a \<in> set (leave_requests d)" and "b \<in> set (leave_requests d)" and "\<not> clash a b" for a b
  proof
    assume c: "clash (f a) (f b)"
    have "clash a b"
      by (rule clash_cong [OF c emp emp sd sd ed ed]) (rule act [OF that(1)], assumption,
          rule act [OF that(2)], assumption)
    with that(3) show False by simp
  qed
  have "sorted_wrt (\<lambda>a b. \<not> clash (f a) (f b)) (leave_requests d)"
  proof (rule sorted_wrt_mono_rel [where P = "\<lambda>a b. \<not> clash a b"])
    show "sorted_wrt (\<lambda>a b. \<not> clash a b) (leave_requests d)"
      using assms(2) by (simp add: non_overlapping_def)
  next
    fix a b
    assume "a \<in> set (leave_requests d)" and "b \<in> set (leave_requests d)" and "\<not> clash a b"
    then show "\<not> clash (f a) (f b)" by (rule keep)
  qed
  then have "sorted_wrt (\<lambda>a b. \<not> clash a b) (map f (leave_requests d))"
    by (simp only: sorted_wrt_map)
  moreover have "leave_requests (set_status s k d) = map f (leave_requests d)"
    by (simp add: set_status_def f_def)
  ultimately show ?thesis
    by (simp only: non_overlapping_def)
qed

lemma no_overlap_no_clash:
  assumes "\<not> has_overlap d employee_id start_date end_date"
    and "r \<in> set (leave_requests d)"
    and "req_employee_id new = employee_id" and "req_start_date new = start_date"
    and "req_end_date new = end_date"
  shows "\<not> clash r new"
proof
  assume c: "clash r new"
  from assms(1) have "filter (\<lambda>r. req_employee_id r = employee_id
       \<and> (req_status r = ''PENDING'' \<or> req_status r = ''APPROVED'')
       \<and> req_start_date r \<le> end_date \<and> req_end_date r \<ge> start_date) (leave_requests d) = []"
    unfolding has_overlap_def by blast
  with assms(2) have no: "\<not> (req_employee_id r = employee_id
       \<and> (req_status r = ''PENDING'' \<or> req_status r = ''APPROVED'')
       \<and> req_start_date r \<le> end_date \<and> req_end_date r \<ge> start_date)"
    unfolding filter_empty_conv by blast
  from c have "req_employee_id r = req_employee_id new" and "active r"
    and "req_start_date r \<le> req_end_date new" and "req_end_date r \<ge> req_start_date new"
    unfolding clash_def by blast+
  with assms(3-5) no show False
    unfolding active_def by blast
qed

lemma non_overlapping_append:
  assumes "non_overlapping d" and "\<not> has_overlap d employee_id start_date end_date"
  shows "non_overlapping
     (d\<lparr>leave_requests := leave_requests d @
          [\<lparr>req_id = i, req_employee_id = employee_id, req_start_date = start_date,
            req_end_date = end_date, req_reason = reason, req_status = st,
            req_created_at = now\<rparr>],
        leave_requests_seq := i\<rparr>)"
proof -
  define new :: leave_request where
    "new = \<lparr>req_id = i, req_employee_id = employee_id, req_start_date = start_date,
            req_end_date = end_date, req_reason = reason, req_status = st,
            req_created_at = now\<rparr>"
  have "\<not> clash r new" if "r \<in> set (leave_requests d)" for r
    using assms(2) that by (rule no_overlap_no_clash) (simp_all add: new_def)
  then have "sorted_wrt (\<lambda>a b. \<not> clash a b) (leave_requests d @ [new])"
    using assms(1) by (simp add: non_overlapping_def sorted_wrt_append)
  then show ?thesis
    by (simp add: non_overlapping_def new_def)
qed

lemma non_overlapping_exec:
  assumes "primary_keys d" and "non_overlapping d"
  shows "non_overlapping (snd (exec x d))"
proof (cases x)
  case (AddEmployee name email department joining_date leave_balance now)
  have "leave_requests (snd (add_employee name email department joining_date leave_balance now d))
      = leave_requests d"
    using snd_add_employee [of name email department joining_date leave_balance now d]
    by (elim disjE) simp_all
  then show ?thesis
    using assms(2) unfolding AddEmployee by (simp add: non_overlapping_def)
next
  case (ApplyLeave employee_id start_date end_date reason now)
  from snd_apply_leave [of employee_id start_date end_date reason now d]
  have "non_overlapping (snd (apply_leave employee_id start_date end_date reason now d))"
  proof (elim disjE conjE)
    assume "snd (apply_leave employee_id start_date end_date reason now d) = d"
    then show ?thesis using assms(2) by simp
  next
    assume no: "\<not> has_overlap d employee_id start_date end_date"
      and eq: "snd (apply_leave employee_id start_date end_date reason now d) =
         d\<lparr>leave_requests := leave_requests d @
              [\<lparr>req_id = next_id (leave_requests_seq d) (map req_id (leave_requests d)),
                req_employee_id = employee_id, req_start_date = start_date,
                req_end_date = end_date, req_reason = reason, req_status = ''PENDING'',
                req_created_at = now\<rparr>],
            leave_requests_seq := next_id (leave_requests_seq d) (map req_id (leave_requests d))\<rparr>"
    show ?thesis
      unfolding eq using assms(2) no by (rule non_overlapping_append)
  qed
  then show ?thesis unfolding ApplyLeave by simp
next
  case (UpdateLeaveStatus leave_id new_status)
  have deducted: "non_overlapping (set_status new_status leave_id (deduct_balance n k d))"
    if "select_leave_request d leave_id = Some row" and "req_status row = ''PENDING''" for n k row
  proof (rule non_overlapping_set_status [where row = row])
    show "primary_keys (deduct_balance n k d)"
      using assms(1) by (simp only: primary_keys_deduct_balance)
    show "non_overlapping (deduct_balance n k d)"
      using assms(2) by (simp only: non_overlapping_deduct_balance)
    show "select_leave_request (deduct_balance n k d) leave_id = Some row"
      using that(1) by (simp only: select_leave_request_deduct_balance)
    show "req_status row = ''PENDING''" by (rule that(2))
  qed
  from snd_update_leave_status [of leave_id new_status d]
  have "non_overlapping (snd (update_leave_status leave_id new_status d))"
  proof (elim disjE exE conjE)
    assume "snd (update_leave_status leave_id new_status d) = d"
    then show ?thesis using assms(2) by simp
  next
    fix row
    assume "select_leave_request d leave_id = Some row" and "req_status row = ''PENDING''"
      and eq: "snd (update_leave_status leave_id new_status d) = set_status new_status leave_id d"
    then show ?thesis
      unfolding eq using assms by (intro non_overlapping_set_status [where row = row])
  next
    fix row emp
    assume "select_leave_request d leave_id = Some row" and "req_status row = ''PENDING''"
      and eq: "snd (update_leave_status leave_id new_status d) =
                    set_status new_status leave_id
                      (deduct_balance (days_inclusive (req_start_date row) (req_end_date row))
                         (req_employee_id row) d)"
    then show ?thesis
      unfolding eq by (intro deducted)
  qed
  then show ?thesis unfolding UpdateLeaveStatus by simp
qed

lemma non_overlapping_empty: "non_overlapping empty_db"
  by (simp add: non_overlapping_def empty_db_def)

lemma non_overlapping_run:
  "primary_keys d \<Longrightarrow> non_overlapping d \<Longrightarrow> non_overlapping (run ops d)"
proof (induction ops arbitrary: d)
  case Nil
  then show ?case by simp
next
  case (Cons x xs)
  from Cons.prems have "primary_keys (snd (exec x d))" and "non_overlapping (snd (exec x d))"
    by (simp_all add: primary_keys_exec non_overlapping_exec)
  with Cons.IH show ?case by simp
qed

lemma get_balance_nonneg:
  assumes "balances_nonneg d" and "get_balance i d = Inr b"
  shows "0 \<le> b"
proof -
  from assms(2) obtain e where e: "select_employee d i = Some e" and b: "b = emp_leave_balance e"
    by (auto simp: get_balance_def split: option.splits)
  from e have "e \<in> set (employees d)"
    by (auto simp: select_employee_def find_Some_iff)
  with assms(1) b show ?thesis
    by (simp add: balances_nonneg_def list_all_iff)
qed

lemma balances_nonneg_empty: "balances_nonneg empty_db"
  by (simp add: balances_nonneg_def empty_db_def)

text \<open>
  C1, as stated: after every committed operation every balance is at least 0, whatever
  initial balance registration is called with. \<open>add_employee\<close> stores the balance it is
  given unchecked (the bound 0 to 365 is the form's, not the function's): registering
  with balance \<open>-1\<close> on the empty store commits an employee whose balance is \<open>-1\<close>.
\<close>
theorem negative_initial_balance_counterexample:
  "fst (add_employee ''Jane Doe'' ''jane.doe@company.com'' ''Engineering'' 738886 (- 1)
          ''2024-01-01 09:00:00'' empty_db) = Inr ()
   \<and> get_balance 1
        (run [AddEmployee ''Jane Doe'' ''jane.doe@company.com'' ''Engineering'' 738886 (- 1)
                ''2024-01-01 09:00:00''] empty_db) = Inr (- 1)
   \<and> \<not> balances_nonneg
        (run [AddEmployee ''Jane Doe'' ''jane.doe@company.com'' ''Engineering'' 738886 (- 1)
                ''2024-01-01 09:00:00''] empty_db)"
  by (simp add: add_employee_eq_body add_employee_body_def empty_db_def next_id_def
      get_balance_def select_employee_def balances_nonneg_def)

text \<open>
  C1, amended: when every registration is called with an initial balance that is not
  negative, every employee's balance is at least 0 in every store reached from the
  empty one by the core operations; and from any store with unique ids and no negative
  balance, each such operation leads to a store with no negative balance.
\<close>
theorem balances_nonneg_invariant:
  "(list_all initial_balance_ok ops \<longrightarrow>
      balances_nonneg (run ops empty_db)
      \<and> (\<forall>i b. get_balance i (run ops empty_db) = Inr b \<longrightarrow> 0 \<le> b))
   \<and> (primary_keys d \<and> balances_nonneg d \<and> initial_balance_ok x \<longrightarrow>
        balances_nonneg (snd (exec x d)))"
proof (intro conjI impI allI)
  assume ok: "list_all initial_balance_ok ops"
  show inv: "balances_nonneg (run ops empty_db)"
    using primary_keys_empty balances_nonneg_empty ok by (rule balances_nonneg_run)
  fix i b
  assume "get_balance i (run ops empty_db) = Inr b"
  with inv show "0 \<le> b" by (rule get_balance_nonneg)
next
  assume "primary_keys d \<and> balances_nonneg d \<and> initial_balance_ok x"
  then show "balances_nonneg (snd (exec x d))"
    by (intro balances_nonneg_exec) blast+
qed

theorem balances_nonneg_invariant_witness:
  "list_all initial_balance_ok [register_jane, submit_february, UpdateLeaveStatus 1 ''APPROVED'']
   \<and> run [register_jane, submit_february, UpdateLeaveStatus 1 ''APPROVED''] empty_db = db_approved
   \<and> balances_nonneg db_approved
   \<and> get_balance 1 db_approved = Inr 19
   \<and> primary_keys db_pending \<and> balances_nonneg db_pending
   \<and> initial_balance_ok (UpdateLeaveStatus 1 ''APPROVED'')
   \<and> balances_nonneg (snd (exec (UpdateLeaveStatus 1 ''APPROVED'') db_pending))"
proof -
  note t = balances_nonneg_invariant
    [of "[register_jane, submit_february, UpdateLeaveStatus 1 ''APPROVED'']" db_pending
        "UpdateLeaveStatus 1 ''APPROVED''"]
  have ok: "list_all initial_balance_ok
      [register_jane, submit_february, UpdateLeaveStatus 1 ''APPROVED'']"
    by (simp add: register_jane_def submit_february_def)
  have pk: "primary_keys db_pending"
    by (simp add: primary_keys_def db_pending_def)
  have bn: "balances_nonneg db_pending"
    by (simp add: balances_nonneg_def db_pending_def jane_def)
  have ib: "initial_balance_ok (UpdateLeaveStatus 1 ''APPROVED'')"
    by simp
  have bal: "get_balance 1 db_approved = Inr 19"
    by (simp add: get_balance_def select_employee_def db_approved_def jane_def)
  from t ok have "balances_nonneg
      (run [register_jane, submit_february, UpdateLeaveStatus 1 ''APPROVED''] empty_db)"
    by blast
  then have a: "balances_nonneg db_approved"
    by (simp only: run_approved)
  from t pk bn ib have b: "balances_nonneg (snd (exec (UpdateLeaveStatus 1 ''APPROVED'') db_pending))"
    by blast
  show ?thesis
    by (intro conjI ok run_approved a bal pk bn ib b)
qed

text \<open>
  C3. In every store reached from the empty one by the core operations, no two requests
  of one employee that are both \<open>PENDING\<close> or \<open>APPROVED\<close> overlap (inclusive bounds:
  \<open>a.start \<le> b.end\<close> and \<open>a.end \<ge> b.start\<close>); and from any store with unique ids
  where that holds, \<open>apply_leave\<close> and both decisions of \<open>update_leave_status\<close> lead to
  a store where it holds.
\<close>
theorem non_overlapping_invariant:
  "non_overlapping (run ops empty_db)
   \<and> (\<forall>i j. i < j \<and> j < length (leave_requests (run ops empty_db)) \<longrightarrow>
         \<not> clash (leave_requests (run ops empty_db) ! i) (leave_requests (run ops empty_db) ! j))
   \<and> (primary_keys d \<and> non_overlapping d \<longrightarrow>
         non_overlapping (snd (apply_leave employee_id start_date end_date reason now d))
         \<and> non_overlapping (snd (update_leave_status leave_id ''APPROVED'' d))
         \<and> non_overlapping (snd (update_leave_status leave_id ''REJECTED'' d)))"
proof (intro conjI impI allI)
  show inv: "non_overlapping (run ops empty_db)"
    using primary_keys_empty non_overlapping_empty by (rule non_overlapping_run)
  fix i j
  assume "i < j \<and> j < length (leave_requests (run ops empty_db))"
  with inv show "\<not> clash (leave_requests (run ops empty_db) ! i)
      (leave_requests (run ops empty_db) ! j)"
    unfolding non_overlapping_def by (simp add: sorted_wrt_iff_nth_less)
next
  assume h: "primary_keys d \<and> non_overlapping d"
  then have pk: "primary_keys d" and no: "non_overlapping d" by blast+
  from non_overlapping_exec [OF pk no, of "ApplyLeave employee_id start_date end_date reason now"]
  show "non_overlapping (snd (apply_leave employee_id start_date end_date reason now d))"
    by simp
  from non_overlapping_exec [OF pk no, of "UpdateLeaveStatus leave_id ''APPROVED''"]
  show "non_overlapping (snd (update_leave_status leave_id ''APPROVED'' d))"
    by simp
  from non_overlapping_exec [OF pk no, of "UpdateLeaveStatus leave_id ''REJECTED''"]
  show "non_overlapping (snd (update_leave_status leave_id ''REJECTED'' d))"
    by simp
qed

theorem non_overlapping_invariant_witness:
  "primary_keys db_pending \<and> non_overlapping db_pending
   \<and> non_overlapping (snd (apply_leave 1 738930 738931 None [] db_pending))
   \<and> leave_requests (snd (apply_leave 1 738930 738931 None [] db_pending))
       = [february, \<lparr>req_id = 2, req_employee_id = 1, req_start_date = 738930,
                      req_end_date = 738931, req_reason = None, req_status = ''PENDING'',
                      req_created_at = []\<rparr>]
   \<and> non_overlapping (snd (update_leave_status 1 ''APPROVED'' db_pending))
   \<and> non_overlapping (snd (update_leave_status 1 ''REJECTED'' db_pending))
   \<and> (0 :: nat) < 1
   \<and> 1 < length (leave_requests
            (run [register_jane, submit_february, ApplyLeave 1 738930 738931 None []] empty_db))
   \<and> \<not> clash
        (leave_requests
            (run [register_jane, submit_february, ApplyLeave 1 738930 738931 None []] empty_db) ! 0)
        (leave_requests
            (run [register_jane, submit_february, ApplyLeave 1 738930 738931 None []] empty_db) ! 1)"
proof -
  note t = non_overlapping_invariant
    [of "[register_jane, submit_february, ApplyLeave 1 738930 738931 None []]" db_pending
        1 738930 738931 None "[]" 1]
  have pk: "primary_keys db_pending"
    by (simp add: primary_keys_def db_pending_def)
  have no: "non_overlapping db_pending"
    by (simp add: non_overlapping_def db_pending_def)
  have rows: "leave_requests (snd (apply_leave 1 738930 738931 None [] db_pending))
       = [february, \<lparr>req_id = 2, req_employee_id = 1, req_start_date = 738930,
                      req_end_date = 738931, req_reason = None, req_status = ''PENDING'',
                      req_created_at = []\<rparr>]"
    unfolding apply_leave_eq_body apply_leave_body_cases
    by (simp add: select_employee_def db_pending_def jane_def february_def has_overlap_def
        days_inclusive_def next_id_def)
  have len: "1 < length (leave_requests
            (run [register_jane, submit_february, ApplyLeave 1 738930 738931 None []] empty_db))"
    by code_simp
  from t pk no have p: "non_overlapping (snd (apply_leave 1 738930 738931 None [] db_pending))
      \<and> non_overlapping (snd (update_leave_status 1 ''APPROVED'' db_pending))
      \<and> non_overlapping (snd (update_leave_status 1 ''REJECTED'' db_pending))"
    by blast
  have lt: "(0 :: nat) < 1" by simp
  from t lt len have q: "\<not> clash
        (leave_requests
            (run [register_jane, submit_february, ApplyLeave 1 738930 738931 None []] empty_db) ! 0)
        (leave_requests
            (run [register_jane, submit_february, ApplyLeave 1 738930 738931 None []] empty_db) ! 1)"
    by blast
  show ?thesis
    by (intro conjI pk no rows lt len q conjunct1 [OF p] conjunct1 [OF conjunct2 [OF p]]
        conjunct2 [OF conjunct2 [OF p]])
qed

section \<open>Listing employees\<close>

lemma lower_char_idem: "lower_char (lower_char c) = lower_char c"
  by (auto simp: lower_char_def Let_def)

lemma of_char_lower_char:
  "(of_char (lower_char c) :: nat) =
     (if 65 \<le> (of_char c :: nat) \<and> (of_char c :: nat) \<le> 90 then of_char c + 32 else of_char c)"
  by (simp add: lower_char_def Let_def)

lemma lower_char_wildcard:
  assumes "lower_char c = CHR ''%'' \<or> lower_char c = CHR ''_''"
  shows "c = CHR ''%'' \<or> c = CHR ''_''"
proof -
  from assms have "(of_char (lower_char c) :: nat) = 37 \<or> (of_char (lower_char c) :: nat) = 95"
    by auto
  then have "(of_char c :: nat) = 37 \<or> (of_char c :: nat) = 95"
    unfolding of_char_lower_char by (auto split: if_splits)
  moreover have "(of_char (CHR ''%'') :: nat) = 37" and "(of_char (CHR ''_'') :: nat) = 95"
    by simp_all
  ultimately have "(of_char c :: nat) = of_char (CHR ''%'') \<or> (of_char c :: nat) = of_char (CHR ''_'')"
    by simp
  then show ?thesis
    by (simp only: of_char_eq_iff)
qed

lemma like_percent: "like ''%'' s"
  by (induction s) simp_all

lemma like_exact:
  assumes "CHR ''%'' \<notin> set p" and "CHR ''_'' \<notin> set p"
  shows "like (p @ ''%'') s \<longleftrightarrow> prefix (map lower_char p) (map lower_char s)"
  using assms
proof (induction p arbitrary: s)
  case Nil
  have "like ''%'' s" by (rule like_percent)
  then show ?case by (simp del: like.simps)
next
  case (Cons a p)
  then show ?case by (cases s) auto
qed

lemma like_contains:
  assumes "CHR ''%'' \<notin> set p" and "CHR ''_'' \<notin> set p"
  shows "like (''%'' @ p @ ''%'') s \<longleftrightarrow> sublist (map lower_char p) (map lower_char s)"
proof (induction s)
  case Nil
  have "like (''%'' @ p @ ''%'') [] \<longleftrightarrow> like (p @ ''%'') []" by simp
  also have "\<dots> \<longleftrightarrow> prefix (map lower_char p) (map lower_char [])"
    using assms by (rule like_exact)
  finally show ?case by simp
next
  case (Cons c s)
  have "like (''%'' @ p @ ''%'') (c # s)
      \<longleftrightarrow> like (p @ ''%'') (c # s) \<or> like (''%'' @ p @ ''%'') s"
    by simp
  also have "\<dots> \<longleftrightarrow> prefix (map lower_char p) (map lower_char (c # s))
      \<or> sublist (map lower_char p) (map lower_char s)"
    using Cons.IH like_exact [OF assms, of "c # s"] by simp
  also have "\<dots> \<longleftrightarrow> sublist (map lower_char p) (map lower_char (c # s))"
    by (simp add: sublist_Cons_right)
  finally show ?case .
qed

lemma like_filter:
  assumes "CHR ''%'' \<notin> set q" and "CHR ''_'' \<notin> set q"
  shows "like (''%'' @ py_lower q @ ''%'') (sql_lower s) \<longleftrightarrow> contains_ci q s"
proof -
  have "CHR ''%'' \<notin> set (py_lower q)" and "CHR ''_'' \<notin> set (py_lower q)"
    using assms lower_char_wildcard unfolding py_lower_def by fastforce+
  then have "like (''%'' @ py_lower q @ ''%'') (sql_lower s)
      \<longleftrightarrow> sublist (map lower_char (py_lower q)) (map lower_char (sql_lower s))"
    by (rule like_contains)
  also have "map lower_char (py_lower q) = map lower_char q"
    by (simp add: py_lower_def lower_char_idem)
  also have "map lower_char (sql_lower s) = map lower_char s"
    by (simp add: sql_lower_def lower_char_idem)
  finally show ?thesis
    by (simp add: contains_ci_def)
qed

lemma list_employees_no_wildcards:
  assumes "CHR ''%'' \<notin> set q" and "CHR ''_'' \<notin> set q"
  shows "list_employees (Some q) d = listEmployees_spec (Some q) d"
proof (cases "q = []")
  case True
  then show ?thesis
    by (simp add: list_employees_def listEmployees_spec_def contains_ci_def)
next
  case False
  have lf: "like (CHR ''%'' # py_lower q @ ''%'') (sql_lower s) \<longleftrightarrow> contains_ci q s" for s
    using like_filter [OF assms, of s] by (simp del: like.simps)
  from False show ?thesis
    by (simp add: list_employees_def listEmployees_spec_def Let_def lf del: like.simps)
qed

lemma list_employees_all: "list_employees None d = listEmployees_spec None d"
  by (simp add: list_employees_def listEmployees_spec_def)

text \<open>
  C8. \<open>list_employees\<close> is to return the employees whose name or email contains the
  filter, letter case apart. The filter goes into the \<^verbatim>\<open>LIKE\<close> pattern unescaped, so its
  \<^verbatim>\<open>_\<close> and \<^verbatim>\<open>%\<close> are wildcards: on the store that holds only Jane Doe, the filter
  \<^verbatim>\<open>_\<close> returns her row, though neither her name nor her email contains an underscore.
  (\<open>list_employees_no_wildcards\<close> above: a filter with neither character returns what
  the specification asks.)
\<close>
theorem list_employees_wildcard:
  "list_employees (Some ''_'') db_registered = [jane]
   \<and> \<not> contains_ci ''_'' (emp_name jane)
   \<and> \<not> contains_ci ''_'' (emp_email jane)
   \<and> listEmployees_spec (Some ''_'') db_registered = []"
  by code_simp

end
